theory Spec2Isabelle
  imports Main
begin

section \<open>JavaScript values\<close>

text \<open>
  The values the services, renderers and server app chunks handle. A function value is
  either a function from outside these files (a request handler, a processing method, a
  render method of a subclass, the next-handler of the server framework), known only by
  its identity, or one of the two function values the files create themselves:
  \<open>JSONRenderer._renderJSON\<close> and the completion callback that a composite handler hands
  to a processing method. An object is the list of its own properties in insertion order.
  \<open>Ret o m args\<close> is the value that the call \<open>o.m(args)\<close> of a collaborator returned
  (\<open>res.status(status)\<close> gives back a response channel, which the source keeps using).
  Numbers are integers here (status codes, the data of the examples).
\<close>

datatype fn = Ext nat | RenderJSON | CbReady

datatype jsval =
    Undefined
  | Null
  | Bool bool
  | Num int
  | Str string
  | Arr "jsval list"
  | Obj "(string \<times> jsval) list"
  | Func fn
  | Ret jsval string "jsval list"

text \<open>
  What a request makes the code do to its collaborators, in order: \<open>Call f args\<close> is the
  application \<open>f(args)\<close> of a function value, \<open>Method o m args\<close> the call \<open>o.m(args)\<close>.
\<close>

datatype event = Call jsval "jsval list" | Method jsval string "jsval list"

text \<open>The only exception these files can raise themselves: calling a method an object lacks.\<close>

datatype error = TypeError string

text \<open>Reading an own property of an object; anything else has none.\<close>

fun prop_of :: "jsval \<Rightarrow> string \<Rightarrow> jsval" where
  "prop_of (Obj ps) k = (case map_of ps k of None \<Rightarrow> Undefined | Some v \<Rightarrow> v)"
| "prop_of v k = Undefined"

section \<open>The utility library\<close>

text \<open>
  Modelled from the spec: \<open>libs/corelib-web/utils.js\<close> (the object \<open>_\<close>) is not among the
  sources. Its predicates are read off their names and the way the sources use them.
  \<open>_.def\<close> is false on \<open>null\<close> as well as on \<open>undefined\<close>: the registration functions return
  a \<open>null\<close> URL path for a failure and count \<open>_.def(URLPath)\<close> as a success. \<open>_.obj\<close> holds of
  plain objects only: the spec has arrays and primitives wrapped as \<open>{data: value}\<close> by the
  JSON renderer. \<open>_.get(obj, key)\<close> reads an own property of an object and gives
  \<open>undefined\<close> otherwise. \<open>_.hasMethod(obj, name)\<close> says that the property \<open>name\<close> of \<open>obj\<close>
  is a function.
\<close>

fun def_u :: "jsval \<Rightarrow> bool" where
  "def_u Undefined = False"
| "def_u Null = False"
| "def_u v = True"

fun obj_u :: "jsval \<Rightarrow> bool" where
  "obj_u (Obj ps) = True"
| "obj_u v = False"

fun func_u :: "jsval \<Rightarrow> bool" where
  "func_u (Func f) = True"
| "func_u v = False"

fun string_u :: "jsval \<Rightarrow> bool" where
  "string_u (Str s) = True"
| "string_u v = False"

fun number_u :: "jsval \<Rightarrow> bool" where
  "number_u (Num n) = True"
| "number_u v = False"

definition get_u :: "jsval \<Rightarrow> string \<Rightarrow> jsval" where
  "get_u obj k = (if obj_u obj then prop_of obj k else Undefined)"

fun hasMethod :: "jsval \<Rightarrow> jsval \<Rightarrow> bool" where
  "hasMethod obj (Str name) = func_u (prop_of obj name)"
| "hasMethod obj v = False"

text \<open>JavaScript's own truthiness and \<open>a || b\<close>.\<close>

fun truthy :: "jsval \<Rightarrow> bool" where
  "truthy Undefined = False"
| "truthy Null = False"
| "truthy (Bool b) = b"
| "truthy (Num n) = (n \<noteq> 0)"
| "truthy (Str s) = (s \<noteq> [])"
| "truthy v = True"

definition or_u :: "jsval \<Rightarrow> jsval \<Rightarrow> jsval" where
  "or_u a b = (if truthy a then a else b)"

text \<open>\<open>String.prototype.toLowerCase\<close>, on the ASCII letters.\<close>

definition lower_char :: "char \<Rightarrow> char" where
  "lower_char c =
     (let n = (of_char c :: nat) in if 65 \<le> n \<and> n \<le> 90 then char_of (n + 32) else c)"

definition toLowerCase :: "string \<Rightarrow> string" where
  "toLowerCase s = map lower_char s"

text \<open>
  \<open>Object.getOwnPropertyNames\<close>: the keys that are array indices (a decimal numeral
  without a leading zero, at most \<open>2^32 - 2\<close>) first, in ascending numeric order, then the
  other keys in the order they were written.
\<close>

definition is_digit :: "char \<Rightarrow> bool" where
  "is_digit c = (48 \<le> (of_char c :: nat) \<and> (of_char c :: nat) \<le> 57)"

definition index_value :: "string \<Rightarrow> int" where
  "index_value s = foldl (\<lambda>n c. 10 * n + ((of_char c :: int) - 48)) 0 s"

definition is_index :: "string \<Rightarrow> bool" where
  "is_index s =
     (s \<noteq> [] \<and> list_all is_digit s \<and> (s = ''0'' \<or> hd s \<noteq> CHR ''0'') \<and>
      index_value s \<le> 4294967294)"

fun getOwnPropertyNames :: "jsval \<Rightarrow> string list" where
  "getOwnPropertyNames (Obj ps) =
     sort_key index_value (filter is_index (map fst ps)) @
     filter (\<lambda>k. \<not> is_index k) (map fst ps)"
| "getOwnPropertyNames v = []"

text \<open>
  Modelled from the spec: \<open>_.joinPaths\<close> is not among the sources. The spec has it join the
  root path and the subpath into one path without a doubled separator
  (\<open>/api/\<close> and \<open>/users/:id\<close> give \<open>/api/users/:id\<close>); the result is always a string.
\<close>

fun strings_of :: "jsval list \<Rightarrow> string list" where
  "strings_of [] = []"
| "strings_of (Str s # vs) = s # strings_of vs"
| "strings_of (v # vs) = strings_of vs"

fun join_with_slash :: "string list \<Rightarrow> string" where
  "join_with_slash [] = []"
| "join_with_slash [s] = s"
| "join_with_slash (s # ss) = s @ CHR ''/'' # join_with_slash ss"

fun collapse :: "string \<Rightarrow> string" where
  "collapse (a # b # cs) =
     (if a = CHR ''/'' \<and> b = CHR ''/'' then collapse (b # cs) else a # collapse (b # cs))"
| "collapse cs = cs"

definition joinPaths :: "jsval list \<Rightarrow> jsval" where
  "joinPaths ps = Str (collapse (join_with_slash (strings_of ps)))"

section \<open>Service\<close>

text \<open>
  Modelled from the spec: \<open>NamedBase\<close> (\<open>libs/corelib-web/base.js\<close>) is not among the
  sources. It gives an instance its name, \<open>getIName()\<close>, and the validity flag \<open>_valid\<close>
  that \<open>isValid()\<close> reads.
\<close>

record service =
  iname :: string
  valid_flag :: bool
  endpointTable :: jsval
  endpointMethodMap :: jsval

definition isValid :: "'a service_scheme \<Rightarrow> bool" where
  "isValid this = valid_flag this"

definition getEndpointNames :: "'a service_scheme \<Rightarrow> string list option" where
  "getEndpointNames this =
     (if \<not> obj_u (endpointTable this) then None
      else Some (getOwnPropertyNames (endpointTable this)))"

definition getEndpointDefFor :: "'a service_scheme \<Rightarrow> string \<Rightarrow> jsval" where
  "getEndpointDefFor this endpointName = get_u (endpointTable this) endpointName"

definition getMethodForEndpoint :: "'a service_scheme \<Rightarrow> string \<Rightarrow> jsval" where
  "getMethodForEndpoint this endpointName = get_u (endpointMethodMap this) endpointName"

text \<open>The base \<open>_mapEndpointsToMethods\<close>, which subclasses override.\<close>

definition mapEndpointsToMethods :: "service \<Rightarrow> jsval" where
  "mapEndpointsToMethods this = Null"

text \<open>The loop of \<open>_endpointMethodMapValid\<close> over the endpoint names.\<close>

fun methodMapLoop :: "jsval \<Rightarrow> string list \<Rightarrow> bool \<Rightarrow> bool" where
  "methodMapLoop m [] valid = valid"
| "methodMapLoop m (name # names) valid =
     methodMapLoop m names (if \<not> func_u (get_u m name) then False else valid)"

definition endpointMethodMapValid :: "'a service_scheme \<Rightarrow> bool" where
  "endpointMethodMapValid this =
     (case getEndpointNames this of
        None \<Rightarrow> False
      | Some endpointNames \<Rightarrow> methodMapLoop (endpointMethodMap this) endpointNames True)"

text \<open>
  The constructor. \<open>mapHook\<close> is the \<open>_mapEndpointsToMethods\<close> of the class being
  constructed, called on the instance as it is at that moment.
\<close>

definition Service_constructor :: "(service \<Rightarrow> jsval) \<Rightarrow> string \<Rightarrow> jsval \<Rightarrow> service" where
  "Service_constructor mapHook serviceName config =
     (let this = \<lparr>iname = serviceName, valid_flag = True,
                  endpointTable = get_u config ''endpointTable'', endpointMethodMap = Null\<rparr>;
          this = this\<lparr>endpointMethodMap := mapHook this\<rparr>
      in if \<not> endpointMethodMapValid this then this\<lparr>valid_flag := False\<rparr> else this)"

section \<open>RendersResponses\<close>

text \<open>
  The \<open>service\<close> argument of \<open>renderResponsesFor\<close> is any value at all; the mixin looks at
  it only through the methods it calls. It is modelled by what those methods are: a field is
  \<open>None\<close> when the object has no such method and holds the method otherwise (for a method
  without arguments, what it returns; \<open>getEndpointNames\<close> returns a list of names or no list).
\<close>

record svc =
  m_getIName :: "string option"
  m_getEndpointNames :: "string list option option"
  m_getEndpointDefFor :: "(string \<Rightarrow> jsval) option"
  m_getMethodForEndpoint :: "(string \<Rightarrow> jsval) option"
  m_isValid :: "bool option"

text \<open>
  The object the mixin is mixed into (\<open>this\<close>, \<open>self\<close>). Both classes of the repository that
  use the mixin derive from \<open>NamedBase\<close>, so \<open>getIName\<close> is there; \<open>isValid\<close> is looked for
  before it is called. \<open>getHTTPServer\<close> and \<open>getRenderMethodForEndpoint\<close> are the two hooks.
\<close>

record host =
  h_getIName :: string
  h_isValid :: "bool option"
  h_getHTTPServer :: jsval
  h_getRenderMethodForEndpoint :: "string \<Rightarrow> jsval"

text \<open>The hooks as the mixin itself has them: both log an error and return \<open>null\<close>.\<close>

definition getHTTPServer :: jsval where
  "getHTTPServer = Null"

definition getRenderMethodForEndpoint :: "string \<Rightarrow> jsval" where
  "getRenderMethodForEndpoint endpointName = Null"

text \<open>
  Modelled from the spec: \<open>_.interfaceAdheres\<close> is not among the sources. With
  \<open>RendersResponses.REQUIRED_SERVICE_IF\<close> it is the capability check: the service has the
  three methods the interface lists.
\<close>

definition interfaceAdheres :: "svc \<Rightarrow> bool" where
  "interfaceAdheres service =
     (m_getIName service \<noteq> None \<and> m_getEndpointNames service \<noteq> None \<and>
      m_getEndpointDefFor service \<noteq> None)"

text \<open>
  The two closures the files register with a server. \<open>HandlerFunc endpointName
  endpointMethod endpointRenderMethod\<close> is the composite handler of
  \<open>_llCreateEndpointHandlerFunc\<close>; \<open>ValidatedHandlerFunc endpointName handlerFunc\<close> is the
  wrapper of \<open>_llCreateValidatedHandlerFunc\<close>. A registration is one call
  \<open>server[HTTPMethod](URLPath, handler)\<close>: the server, the verb, the path, the handler.
\<close>

datatype handler = HandlerFunc string jsval jsval | ValidatedHandlerFunc string jsval

type_synonym registration = "jsval \<times> jsval \<times> jsval \<times> handler"

subsection \<open>JSONRenderer._renderJSON\<close>

text \<open>
  \<open>hdrs\<close> is \<open>this._responseHeaders\<close>. The response channel is followed through the
  calls: \<open>res = res.status(status)\<close> and \<open>res = res.set(headers)\<close> go on with what the call
  returned.
\<close>

definition renderJSON ::
  "jsval \<Rightarrow> jsval \<Rightarrow> jsval \<Rightarrow> jsval \<Rightarrow> jsval \<Rightarrow> jsval \<Rightarrow> jsval \<Rightarrow> event list" where
  "renderJSON hdrs req res next data err status =
     (if def_u err then [Call next [err]]
      else
        let (res, es1) =
              (if number_u status
               then (Ret res ''status'' [status], [Method res ''status'' [status]])
               else (res, []));
            (res, es2) =
              (if obj_u hdrs
               then (Ret res ''set'' [hdrs], [Method res ''set'' [hdrs]])
               else (res, []));
            data = (if \<not> obj_u data then Obj [(''data'', data)] else data)
        in es1 @ es2 @ [Method res ''json'' [data]])"

text \<open>
  Applying a function value to arguments. A parameter without an argument is \<open>undefined\<close>.
  The call is recorded; when the function is \<open>_renderJSON\<close> its body runs as well, with
  \<open>ghdrs\<close> for \<open>this._responseHeaders\<close> (the callers below apply the function value on its
  own, not as a method of the renderer).
\<close>

definition arg :: "jsval list \<Rightarrow> nat \<Rightarrow> jsval" where
  "arg args i = (if i < length args then args ! i else Undefined)"

fun body_of :: "jsval \<Rightarrow> jsval \<Rightarrow> jsval list \<Rightarrow> event list" where
  "body_of ghdrs (Func RenderJSON) args =
     renderJSON ghdrs (arg args 0) (arg args 1) (arg args 2) (arg args 3) (arg args 4) (arg args 5)"
| "body_of ghdrs f args = []"

definition call_fn :: "jsval \<Rightarrow> jsval \<Rightarrow> jsval list \<Rightarrow> event list" where
  "call_fn ghdrs f args = Call f args # body_of ghdrs f args"

subsection \<open>The composite handler\<close>

text \<open>
  The completion callback \<open>function(data, err)\<close> that the composite handler hands over.
  Here and below a message is written as what the library's \<open>fmt\<close> makes of the format
  string: \<open>{0}\<close>, \<open>{1}\<close> replaced by the arguments in that order.
\<close>

definition cbReady ::
  "host \<Rightarrow> jsval \<Rightarrow> string \<Rightarrow> jsval \<Rightarrow> jsval \<Rightarrow> jsval \<Rightarrow> jsval \<Rightarrow> jsval \<Rightarrow> jsval \<Rightarrow> event list" where
  "cbReady self ghdrs endpointName endpointRenderMethod req res next data err =
     (let rendererValid = (case h_isValid self of Some b \<Rightarrow> b | None \<Rightarrow> True)
      in if \<not> rendererValid
         then [Call next [Obj [
                 (''message'', Str (''Renderer '' @ h_getIName self @
                     '' invalid, unable to handle request to endpoint '' @ endpointName)),
                 (''code'', Str ''ERR_RENDERER_INVALID'')]]]
         else call_fn ghdrs endpointRenderMethod [req, res, next, data, err])"

text \<open>
  The body of the composite handler, \<open>function(req, res, next)\<close>. \<open>service\<close> and \<open>self\<close>
  are the captured objects as they are when the request comes in. \<open>firings\<close> lists the
  \<open>(data, err)\<close> pairs with which the processing method calls its completion callback for
  this request, in order (the source does not care how many there are). The value the
  handler returns is not used by the claims and is left out.
\<close>

definition handlerFunc ::
  "svc \<Rightarrow> host \<Rightarrow> jsval \<Rightarrow> string \<Rightarrow> jsval \<Rightarrow> jsval \<Rightarrow> (jsval \<times> jsval) list \<Rightarrow>
     jsval \<Rightarrow> jsval \<Rightarrow> jsval \<Rightarrow> error + event list" where
  "handlerFunc service self ghdrs endpointName endpointMethod endpointRenderMethod firings
       req res next =
     (let serviceValid = (case m_isValid service of Some b \<Rightarrow> b | None \<Rightarrow> True)
      in if \<not> serviceValid
         then (case m_getIName service of
                 None \<Rightarrow> Inl (TypeError ''service.getIName is not a function'')
               | Some serviceName \<Rightarrow>
                   Inr [Call next [Obj [
                     (''message'', Str (''Service '' @ serviceName @
                         '' invalid, unable to handle request to endpoint '' @ endpointName)),
                     (''code'', Str ''ERR_SERVICE_INVALID'')]]])
         else Inr (Call endpointMethod [req, Func CbReady] #
                   concat (map (\<lambda>(data, err).
                     cbReady self ghdrs endpointName endpointRenderMethod req res next data err)
                     firings)))"

definition llCreateEndpointHandlerFunc :: "host \<Rightarrow> svc \<Rightarrow> string \<Rightarrow> error + handler option" where
  "llCreateEndpointHandlerFunc this service endpointName =
     (case m_getMethodForEndpoint service of
        None \<Rightarrow> Inl (TypeError ''service.getMethodForEndpoint is not a function'')
      | Some getMethod \<Rightarrow>
          let endpointMethod = getMethod endpointName
          in if \<not> func_u endpointMethod then Inr None
             else
               let endpointRenderMethod = h_getRenderMethodForEndpoint this endpointName
               in if \<not> func_u endpointRenderMethod then Inr None
                  else Inr (Some (HandlerFunc endpointName endpointMethod endpointRenderMethod)))"

subsection \<open>Registration\<close>

fun toLowerCase_v :: "jsval \<Rightarrow> jsval" where
  "toLowerCase_v (Str s) = Str (toLowerCase s)"
| "toLowerCase_v v = v"

definition llRegisterEndpointHandler ::
  "host \<Rightarrow> string \<Rightarrow> jsval \<Rightarrow> jsval \<Rightarrow> handler \<Rightarrow> registration list \<Rightarrow>
     jsval \<times> registration list" where
  "llRegisterEndpointHandler this endpointName endpointDef servicePathRoot endpointHandlerFunc
       regs =
     (let HTTPMethod = or_u (prop_of endpointDef ''HTTPMethod'') (Str ''get'');
          URLPath' = joinPaths [servicePathRoot, prop_of endpointDef ''URLSubpath''];
          HTTPMethod = (if string_u HTTPMethod then toLowerCase_v HTTPMethod else HTTPMethod);
          server = h_getHTTPServer this
      in if \<not> hasMethod server HTTPMethod then (Null, regs)
         else (URLPath', regs @ [(server, HTTPMethod, URLPath', endpointHandlerFunc)]))"

definition llSetupRenderingFor ::
  "host \<Rightarrow> svc \<Rightarrow> string \<Rightarrow> jsval \<Rightarrow> registration list \<Rightarrow> (error + jsval) \<times> registration list" where
  "llSetupRenderingFor this service endpointName servicePathRoot regs =
     (case llCreateEndpointHandlerFunc this service endpointName of
        Inl e \<Rightarrow> (Inl e, regs)
      | Inr None \<Rightarrow> (Inr Null, regs)
      | Inr (Some endpointHandlerFunc) \<Rightarrow>
          (case m_getEndpointDefFor service of
             None \<Rightarrow> (Inl (TypeError ''service.getEndpointDefFor is not a function''), regs)
           | Some getDef \<Rightarrow>
               let endpointDef = getDef endpointName
               in if \<not> obj_u endpointDef then (Inr Null, regs)
                  else
                    (case llRegisterEndpointHandler this endpointName endpointDef
                            servicePathRoot endpointHandlerFunc regs of
                       (URLPath, regs') \<Rightarrow> (Inr URLPath, regs'))))"

text \<open>The loop of \<open>renderResponsesFor\<close>; an exception leaves it at once.\<close>

fun setupLoop ::
  "host \<Rightarrow> svc \<Rightarrow> jsval \<Rightarrow> string list \<Rightarrow> nat \<Rightarrow> registration list \<Rightarrow>
     (error + nat) \<times> registration list" where
  "setupLoop this service servicePathRoot [] numSetupSuccess regs = (Inr numSetupSuccess, regs)"
| "setupLoop this service servicePathRoot (endpointName # rest) numSetupSuccess regs =
     (case llSetupRenderingFor this service endpointName servicePathRoot regs of
        (Inl e, regs') \<Rightarrow> (Inl e, regs')
      | (Inr URLPath, regs') \<Rightarrow>
          setupLoop this service servicePathRoot rest
            (if def_u URLPath then numSetupSuccess + 1 else numSetupSuccess) regs')"

text \<open>
  \<open>endpoints\<close> is \<open>None\<close> when the third argument is not an array. The function returns its
  boolean, or raises, and leaves the registrations made so far.
\<close>

definition renderResponsesFor ::
  "host \<Rightarrow> svc \<Rightarrow> jsval \<Rightarrow> string list option \<Rightarrow> registration list \<Rightarrow>
     (error + bool) \<times> registration list" where
  "renderResponsesFor this service servicePathRoot endpoints regs =
     (let servicePathRoot = or_u servicePathRoot (Str ''/'')
      in if \<not> interfaceAdheres service then (Inr False, regs)
         else
           (case (case endpoints of
                    Some es \<Rightarrow> Inr (Some es)
                  | None \<Rightarrow>
                      (case m_getEndpointNames service of
                         None \<Rightarrow> Inl (TypeError ''service.getEndpointNames is not a function'')
                       | Some names \<Rightarrow> Inr names)) of
              Inl e \<Rightarrow> (Inl e, regs)
            | Inr None \<Rightarrow> (Inr False, regs)
            | Inr (Some endpointNames) \<Rightarrow>
                if endpointNames = [] then (Inr True, regs)
                else
                  (case setupLoop this service servicePathRoot endpointNames 0 regs of
                     (Inl e, regs') \<Rightarrow> (Inl e, regs')
                   | (Inr numSetupSuccess, regs') \<Rightarrow>
                       (Inr (\<not> numSetupSuccess < 1), regs'))))"

section \<open>JSONRenderer\<close>

record jsonRenderer =
  r_iname :: string
  r_valid :: bool
  r_server :: jsval
  r_responseHeaders :: jsval

definition JSONRenderer_constructor :: "string \<Rightarrow> jsval \<Rightarrow> jsval \<Rightarrow> jsonRenderer" where
  "JSONRenderer_constructor rendererName server config =
     (let this = \<lparr>r_iname = rendererName, r_valid = True, r_server = server,
                  r_responseHeaders = Null\<rparr>;
          this = (if \<not> obj_u (r_server this) then this\<lparr>r_valid := False\<rparr> else this)
      in this\<lparr>r_responseHeaders := get_u config ''responseHeaders''\<rparr>)"

text \<open>The renderer as the mixin sees it: its own \<open>getHTTPServer\<close> and \<open>getRenderMethodForEndpoint\<close>.\<close>

definition host_of_renderer :: "jsonRenderer \<Rightarrow> host" where
  "host_of_renderer this =
     \<lparr>h_getIName = r_iname this, h_isValid = Some (r_valid this),
      h_getHTTPServer = r_server this,
      h_getRenderMethodForEndpoint = (\<lambda>endpointName. Func RenderJSON)\<rparr>"

section \<open>ServerAppChunk\<close>

record serverAppChunk = service +
  URLPathRoot :: jsval
  server :: jsval
  endpointRenderMethodMap :: jsval

definition host_of_chunk :: "serverAppChunk \<Rightarrow> host" where
  "host_of_chunk this =
     \<lparr>h_getIName = iname this, h_isValid = Some (isValid this),
      h_getHTTPServer = server this,
      h_getRenderMethodForEndpoint =
        (\<lambda>endpointName. get_u (endpointRenderMethodMap this) endpointName)\<rparr>"

text \<open>A Service (or a chunk) handed to \<open>renderResponsesFor\<close> as its \<open>service\<close> argument.\<close>

definition svc_of_service :: "'a service_scheme \<Rightarrow> svc" where
  "svc_of_service this =
     \<lparr>m_getIName = Some (iname this), m_getEndpointNames = Some (getEndpointNames this),
      m_getEndpointDefFor = Some (getEndpointDefFor this),
      m_getMethodForEndpoint = Some (getMethodForEndpoint this),
      m_isValid = Some (isValid this)\<rparr>"

text \<open>The base \<open>_mapEndpointsToRenderMethods\<close>.\<close>

definition mapEndpointsToRenderMethods :: "serverAppChunk \<Rightarrow> jsval" where
  "mapEndpointsToRenderMethods this = Obj []"

definition llCreateValidatedHandlerFunc :: "string \<Rightarrow> jsval \<Rightarrow> handler" where
  "llCreateValidatedHandlerFunc endpointName handlerFunc' =
     ValidatedHandlerFunc endpointName handlerFunc'"

text \<open>
  The body of the wrapper, \<open>function(req, res, next)\<close>; \<open>self\<close> is the chunk as it is when
  the request comes in. The message names the endpoint twice, as the source's format
  string does.
\<close>

definition validatedHandlerFunc ::
  "serverAppChunk \<Rightarrow> jsval \<Rightarrow> string \<Rightarrow> jsval \<Rightarrow> jsval \<Rightarrow> jsval \<Rightarrow> jsval \<Rightarrow> event list" where
  "validatedHandlerFunc self ghdrs endpointName handlerFunc' req res next =
     (if \<not> isValid self
      then [Call next [Obj [
              (''message'', Str (''Endpoint '' @ endpointName @ '' : Server app chunk '' @
                  endpointName @ '' is not valid, unable to handle request'')),
              (''code'', Str ''ERR_SERVER_APP_CHUNK_INVALID'')]]]
      else []) @
     call_fn ghdrs handlerFunc' [req, res, next]"

text \<open>
  The loop of \<open>_registerEndpointHandlers\<close>. The wrapper it creates is always a function, so
  the source's third check never fails.
\<close>

fun registerLoop ::
  "serverAppChunk \<Rightarrow> string list \<Rightarrow> nat \<Rightarrow> registration list \<Rightarrow> nat \<times> registration list" where
  "registerLoop this [] numSetupSuccess regs = (numSetupSuccess, regs)"
| "registerLoop this (endpointName # rest) numSetupSuccess regs =
     (let endpointDef = getEndpointDefFor this endpointName
      in if \<not> obj_u endpointDef then registerLoop this rest numSetupSuccess regs
         else
           let endpointHandler = getMethodForEndpoint this endpointName
           in if \<not> func_u endpointHandler then registerLoop this rest numSetupSuccess regs
              else
                let endpointHandler = llCreateValidatedHandlerFunc endpointName endpointHandler
                in (case llRegisterEndpointHandler (host_of_chunk this) endpointName endpointDef
                           (URLPathRoot this) endpointHandler regs of
                      (URLPath, regs') \<Rightarrow>
                        registerLoop this rest
                          (if def_u URLPath then numSetupSuccess + 1 else numSetupSuccess)
                          regs'))"

definition registerEndpointHandlers ::
  "serverAppChunk \<Rightarrow> registration list \<Rightarrow> bool \<times> registration list" where
  "registerEndpointHandlers this regs =
     (case getEndpointNames this of
        None \<Rightarrow> (False, regs)
      | Some endpointNames \<Rightarrow>
          if endpointNames = [] then (True, regs)
          else
            (case registerLoop this endpointNames 0 regs of
               (numSetupSuccess, regs') \<Rightarrow> (\<not> numSetupSuccess < 1, regs')))"

text \<open>
  The constructor: the Service constructor first, then the chunk's own setup. \<open>mapHook\<close>
  and \<open>renderMapHook\<close> are the \<open>_mapEndpointsToMethods\<close> and
  \<open>_mapEndpointsToRenderMethods\<close> of the class being constructed.
\<close>

definition ServerAppChunk_constructor ::
  "(service \<Rightarrow> jsval) \<Rightarrow> (serverAppChunk \<Rightarrow> jsval) \<Rightarrow> string \<Rightarrow> jsval \<Rightarrow> registration list \<Rightarrow>
     serverAppChunk \<times> registration list" where
  "ServerAppChunk_constructor mapHook renderMapHook chunkName config regs =
     (let super = Service_constructor mapHook chunkName config;
          this = \<lparr>iname = iname super, valid_flag = valid_flag super,
                  endpointTable = endpointTable super,
                  endpointMethodMap = endpointMethodMap super,
                  URLPathRoot = Null, server = Null, endpointRenderMethodMap = Undefined\<rparr>;
          this = this\<lparr>valid_flag := True\<rparr>;
          this = this\<lparr>URLPathRoot := or_u (get_u config ''URLPathRoot'') (Str ''/'')\<rparr>;
          this = this\<lparr>server := get_u config ''server''\<rparr>;
          this = (if \<not> obj_u (server this) then this\<lparr>valid_flag := False\<rparr> else this)
      in if \<not> valid_flag this then (this, regs)
         else
           (case registerEndpointHandlers this regs of
              (success, regs') \<Rightarrow>
                let this = (if \<not> success then this\<lparr>valid_flag := False\<rparr> else this)
                in (this\<lparr>endpointRenderMethodMap := renderMapHook this\<rparr>, regs')))"

section \<open>Reading a trace\<close>

fun calls_status :: "event \<Rightarrow> bool" where
  "calls_status (Method obj m args) = (m = ''status'')"
| "calls_status (Call f args) = False"

text \<open>
  What the next-handler was given: the arguments of its one-argument calls. (The files call
  a processing method with two arguments, a handler with three and a render method with
  five, so a one-argument call of the value \<open>next\<close> is a call \<open>next(e)\<close>.)
\<close>

fun next_errors :: "jsval \<Rightarrow> event list \<Rightarrow> jsval list" where
  "next_errors next [] = []"
| "next_errors next (Call f [e] # evs) =
     (if f = next then e # next_errors next evs else next_errors next evs)"
| "next_errors next (ev # evs) = next_errors next evs"

text \<open>The error kinds as the spec names them, and the strings the sources put in \<open>code\<close>.\<close>

definition error_kinds :: "jsval list" where
  "error_kinds = [Str ''SERVICE_INVALID'', Str ''RENDERER_INVALID'',
                  Str ''SERVER_APP_CHUNK_INVALID'']"

definition error_codes :: "jsval list" where
  "error_codes = [Str ''ERR_SERVICE_INVALID'', Str ''ERR_RENDERER_INVALID'',
                  Str ''ERR_SERVER_APP_CHUNK_INVALID'']"

section \<open>Example inputs\<close>

text \<open>
  A configuration with two endpoints \<open>a\<close> and \<open>b\<close> and a server that knows \<open>get\<close>, and a
  subclass whose \<open>_mapEndpointsToMethods\<close> maps \<open>a\<close> only.
\<close>

definition example_server :: jsval where
  "example_server = Obj [(''get'', Func (Ext 0))]"

definition example_config :: jsval where
  "example_config =
     Obj [(''endpointTable'',
             Obj [(''a'', Obj [(''URLSubpath'', Str ''/a'')]),
                  (''b'', Obj [(''URLSubpath'', Str ''/b'')])]),
          (''server'', example_server)]"

definition mapOnlyA :: "service \<Rightarrow> jsval" where
  "mapOnlyA this = Obj [(''a'', Func (Ext 3))]"

definition mapBoth :: "service \<Rightarrow> jsval" where
  "mapBoth this = Obj [(''a'', Func (Ext 3)), (''b'', Func (Ext 4))]"

text \<open>A JSON renderer on the example server, without default headers.\<close>

definition example_renderer :: jsonRenderer where
  "example_renderer = JSONRenderer_constructor ''json'' example_server Undefined"

text \<open>A JSON renderer on the example server, configured with a default response header.\<close>

definition headed_renderer :: jsonRenderer where
  "headed_renderer =
     JSONRenderer_constructor ''json'' example_server
       (Obj [(''responseHeaders'', Obj [(''X-Powered-By'', Str ''chunks'')])])"

section \<open>Service: validity after construction\<close>

lemma methodMapLoop_eq:
  "methodMapLoop m names v = (v \<and> (\<forall>n \<in> set names. func_u (get_u m n)))"
  by (induction names arbitrary: v) auto

text \<open>
  C7. Right after construction the validity flag of a Service is false exactly when the
  endpoint table yields no list of names or some declared endpoint name has no function
  entry in the endpoint method map. The constructor is a total function into the record of
  the instance: it has no failing branch, whatever the configuration and the mapping hook.
\<close>

theorem Service_constructor_valid_iff:
  "(\<not> isValid (Service_constructor mapHook serviceName config)) =
     (getEndpointNames (Service_constructor mapHook serviceName config) = None \<or>
      (\<exists>names. getEndpointNames (Service_constructor mapHook serviceName config) = Some names \<and>
         (\<exists>n \<in> set names.
            \<not> func_u (getMethodForEndpoint (Service_constructor mapHook serviceName config) n))))"
  by (auto simp: Service_constructor_def Let_def isValid_def endpointMethodMapValid_def
      getEndpointNames_def getMethodForEndpoint_def methodMapLoop_eq split: option.splits)

theorem Service_constructor_valid_iff_witness:
  "getEndpointNames (Service_constructor mapOnlyA ''svc'' example_config) = Some [''a'', ''b''] \<and>
   \<not> func_u (getMethodForEndpoint (Service_constructor mapOnlyA ''svc'' example_config) ''b'') \<and>
   \<not> isValid (Service_constructor mapOnlyA ''svc'' example_config) \<and>
   isValid (Service_constructor mapBoth ''svc'' example_config)"
proof -
  have names: "getEndpointNames (Service_constructor mapOnlyA ''svc'' example_config) =
      Some [''a'', ''b'']"
    by code_simp
  have b: "\<not> func_u (getMethodForEndpoint (Service_constructor mapOnlyA ''svc'' example_config) ''b'')"
    by code_simp
  have both: "getEndpointNames (Service_constructor mapBoth ''svc'' example_config) =
      Some [''a'', ''b'']"
    by code_simp
  have fa: "func_u (getMethodForEndpoint (Service_constructor mapBoth ''svc'' example_config) ''a'')"
    by code_simp
  have fb: "func_u (getMethodForEndpoint (Service_constructor mapBoth ''svc'' example_config) ''b'')"
    by code_simp
  have invalid: "\<not> isValid (Service_constructor mapOnlyA ''svc'' example_config)"
    using Service_constructor_valid_iff [of mapOnlyA "''svc''" example_config] names b
    by auto
  have valid: "isValid (Service_constructor mapBoth ''svc'' example_config)"
    using Service_constructor_valid_iff [of mapBoth "''svc''" example_config] both fa fb
    by auto
  show ?thesis using names b invalid valid by simp
qed

section \<open>ServerAppChunk: construction and the validity wrapper\<close>

text \<open>
  C1, at the input where it fails. The configuration declares the endpoints \<open>a\<close> and \<open>b\<close>,
  the method map has a function for \<open>a\<close> only, the server knows \<open>get\<close>. The Service
  constructor marks the instance invalid. The chunk's constructor then sets the flag back to
  true, finds the server, registers the handler of \<open>a\<close>, and leaves the chunk valid.
\<close>

theorem ServerAppChunk_constructor_forgets_invalid:
  "\<not> isValid (Service_constructor mapOnlyA ''chunk'' example_config) \<and>
   isValid (fst (ServerAppChunk_constructor mapOnlyA mapEndpointsToRenderMethods ''chunk''
                   example_config [])) \<and>
   snd (ServerAppChunk_constructor mapOnlyA mapEndpointsToRenderMethods ''chunk''
          example_config []) =
     [(example_server, Str ''get'', Str ''/a'', ValidatedHandlerFunc ''a'' (Func (Ext 3)))]"
  by code_simp

text \<open>
  C2. When the chunk is invalid at the time of the request, the validity wrapper calls
  \<open>next\<close> with the invalid-chunk error object and then, on the same request, still calls
  the raw handler with \<open>(req, res, next)\<close>. (For a handler from outside these files
  \<open>body_of\<close> adds nothing: the trace is these two calls.)
\<close>

theorem validatedHandlerFunc_invalid_falls_through:
  "\<not> isValid self \<Longrightarrow>
   validatedHandlerFunc self ghdrs endpointName h req res next =
     [Call next [Obj [
        (''message'', Str (''Endpoint '' @ endpointName @ '' : Server app chunk '' @
            endpointName @ '' is not valid, unable to handle request'')),
        (''code'', Str ''ERR_SERVER_APP_CHUNK_INVALID'')]],
      Call h [req, res, next]] @ body_of ghdrs h [req, res, next]"
  by (simp add: validatedHandlerFunc_def call_fn_def)

theorem validatedHandlerFunc_invalid_falls_through_witness:
  "\<not> isValid (fst (ServerAppChunk_constructor mapOnlyA mapEndpointsToRenderMethods ''chunk''
                     (Obj []) [])) \<and>
   validatedHandlerFunc
       (fst (ServerAppChunk_constructor mapOnlyA mapEndpointsToRenderMethods ''chunk''
               (Obj []) []))
       Undefined ''a'' (Func (Ext 3)) (Str ''req'') (Str ''res'') (Func (Ext 9)) =
     [Call (Func (Ext 9)) [Obj [
        (''message'', Str ''Endpoint a : Server app chunk a is not valid, unable to handle request''),
        (''code'', Str ''ERR_SERVER_APP_CHUNK_INVALID'')]],
      Call (Func (Ext 3)) [Str ''req'', Str ''res'', Func (Ext 9)]]"
proof -
  have h: "\<not> isValid (fst (ServerAppChunk_constructor mapOnlyA mapEndpointsToRenderMethods
                             ''chunk'' (Obj []) []))"
    by code_simp
  show ?thesis
    using h validatedHandlerFunc_invalid_falls_through [OF h, of Undefined "''a''"
        "Func (Ext 3)" "Str ''req''" "Str ''res''" "Func (Ext 9)"]
    by simp
qed

section \<open>RendersResponses: the capability check and the composite handler\<close>

text \<open>
  C8. A service that lacks one of \<open>getIName\<close>, \<open>getEndpointNames\<close>, \<open>getEndpointDefFor\<close>
  makes \<open>renderResponsesFor\<close> return false with the registrations untouched.
\<close>

theorem renderResponsesFor_interface_check:
  "m_getIName service = None \<or> m_getEndpointNames service = None \<or>
   m_getEndpointDefFor service = None \<Longrightarrow>
   renderResponsesFor this service servicePathRoot endpoints regs = (Inr False, regs)"
  by (auto simp: renderResponsesFor_def interfaceAdheres_def Let_def)

theorem renderResponsesFor_interface_check_witness:
  "m_getEndpointDefFor
     ((svc_of_service (Service_constructor mapBoth ''svc'' example_config))
        \<lparr>m_getEndpointDefFor := None\<rparr>) = None \<and>
   renderResponsesFor (host_of_renderer example_renderer)
     ((svc_of_service (Service_constructor mapBoth ''svc'' example_config))
        \<lparr>m_getEndpointDefFor := None\<rparr>)
     (Str ''/api'') None [] = (Inr False, [])"
proof -
  have h: "m_getEndpointDefFor
     ((svc_of_service (Service_constructor mapBoth ''svc'' example_config))
        \<lparr>m_getEndpointDefFor := None\<rparr>) = None"
    by simp
  show ?thesis
    using h renderResponsesFor_interface_check [OF disjI2 [OF disjI2 [OF h]],
        of "host_of_renderer example_renderer" "Str ''/api''" None "[]"]
    by simp
qed

text \<open>
  C4. The composite handler. When the service has \<open>isValid\<close> and it returns false, the
  handler does one thing: it calls \<open>next\<close> with the service-invalid error; the processing
  method is not called. Otherwise the processing method is called with the request and the
  completion callback, and what follows is what the callback does at each firing. When the
  callback fires and the renderer's \<open>isValid()\<close> returns false, it does one thing: it calls
  \<open>next\<close> with the renderer-invalid error; the render method is not called.
\<close>

theorem handlerFunc_validity:
  "(interfaceAdheres service \<and> m_isValid service = Some False \<longrightarrow>
      (\<exists>serviceName. m_getIName service = Some serviceName \<and>
        handlerFunc service self ghdrs endpointName endpointMethod endpointRenderMethod firings
            req res next =
          Inr [Call next [Obj [
                 (''message'', Str (''Service '' @ serviceName @
                     '' invalid, unable to handle request to endpoint '' @ endpointName)),
                 (''code'', Str ''ERR_SERVICE_INVALID'')]]])) \<and>
   (m_isValid service \<noteq> Some False \<longrightarrow>
      handlerFunc service self ghdrs endpointName endpointMethod endpointRenderMethod firings
          req res next =
        Inr (Call endpointMethod [req, Func CbReady] #
             concat (map (\<lambda>(data, err).
               cbReady self ghdrs endpointName endpointRenderMethod req res next data err)
               firings))) \<and>
   (h_isValid self = Some False \<longrightarrow>
      cbReady self ghdrs endpointName endpointRenderMethod req res next data err =
        [Call next [Obj [
           (''message'', Str (''Renderer '' @ h_getIName self @
               '' invalid, unable to handle request to endpoint '' @ endpointName)),
           (''code'', Str ''ERR_RENDERER_INVALID'')]]])"
proof (intro conjI impI)
  assume "interfaceAdheres service \<and> m_isValid service = Some False"
  then show "\<exists>serviceName. m_getIName service = Some serviceName \<and>
        handlerFunc service self ghdrs endpointName endpointMethod endpointRenderMethod firings
            req res next =
          Inr [Call next [Obj [
                 (''message'', Str (''Service '' @ serviceName @
                     '' invalid, unable to handle request to endpoint '' @ endpointName)),
                 (''code'', Str ''ERR_SERVICE_INVALID'')]]]"
    by (auto simp: handlerFunc_def interfaceAdheres_def)
next
  assume "m_isValid service \<noteq> Some False"
  then show "handlerFunc service self ghdrs endpointName endpointMethod endpointRenderMethod firings
          req res next =
        Inr (Call endpointMethod [req, Func CbReady] #
             concat (map (\<lambda>(data, err).
               cbReady self ghdrs endpointName endpointRenderMethod req res next data err)
               firings))"
    by (cases "m_isValid service") (auto simp: handlerFunc_def)
next
  assume "h_isValid self = Some False"
  then show "cbReady self ghdrs endpointName endpointRenderMethod req res next data err =
        [Call next [Obj [
           (''message'', Str (''Renderer '' @ h_getIName self @
               '' invalid, unable to handle request to endpoint '' @ endpointName)),
           (''code'', Str ''ERR_RENDERER_INVALID'')]]]"
    by (simp add: cbReady_def)
qed

theorem handlerFunc_validity_witness:
  "handlerFunc (svc_of_service (Service_constructor mapOnlyA ''svc'' example_config))
       (host_of_renderer example_renderer) Undefined ''a'' (Func (Ext 3)) (Func RenderJSON)
       [(Num 5, Undefined)] (Str ''req'') (Str ''res'') (Func (Ext 9)) =
     Inr [Call (Func (Ext 9)) [Obj [
            (''message'', Str ''Service svc invalid, unable to handle request to endpoint a''),
            (''code'', Str ''ERR_SERVICE_INVALID'')]]] \<and>
   handlerFunc (svc_of_service (Service_constructor mapBoth ''svc'' example_config))
       (host_of_renderer (JSONRenderer_constructor ''json'' Null Undefined)) Undefined
       ''a'' (Func (Ext 3)) (Func RenderJSON)
       [(Num 5, Undefined)] (Str ''req'') (Str ''res'') (Func (Ext 9)) =
     Inr [Call (Func (Ext 3)) [Str ''req'', Func CbReady],
          Call (Func (Ext 9)) [Obj [
            (''message'', Str ''Renderer json invalid, unable to handle request to endpoint a''),
            (''code'', Str ''ERR_RENDERER_INVALID'')]]]"
proof -
  let ?bad = "svc_of_service (Service_constructor mapOnlyA ''svc'' example_config)"
  let ?good = "svc_of_service (Service_constructor mapBoth ''svc'' example_config)"
  let ?off = "host_of_renderer (JSONRenderer_constructor ''json'' Null Undefined)"
  have h1: "interfaceAdheres ?bad \<and> m_isValid ?bad = Some False"
    by code_simp
  have n1: "m_getIName ?bad = Some ''svc''"
    by code_simp
  have h2: "m_isValid ?good \<noteq> Some False"
    by code_simp
  have h3: "h_isValid ?off = Some False"
    by code_simp
  have n3: "h_getIName ?off = ''json''"
    by code_simp
  show ?thesis
    using handlerFunc_validity [of ?bad "host_of_renderer example_renderer" Undefined "''a''"
        "Func (Ext 3)" "Func RenderJSON" "[(Num 5, Undefined)]" "Str ''req''" "Str ''res''"
        "Func (Ext 9)"]
      handlerFunc_validity [of ?good ?off Undefined "''a''"
        "Func (Ext 3)" "Func RenderJSON" "[(Num 5, Undefined)]" "Str ''req''" "Str ''res''"
        "Func (Ext 9)" "Num 5" Undefined]
      h1 n1 h2 h3 n3
    by simp
qed

subsection \<open>Registering one endpoint\<close>

lemma llRegister_append:
  "llRegisterEndpointHandler this n d root h regs =
     (fst (llRegisterEndpointHandler this n d root h []),
      regs @ snd (llRegisterEndpointHandler this n d root h []))"
  by (simp add: llRegisterEndpointHandler_def Let_def)

lemma llRegister_def_iff:
  "def_u (fst (llRegisterEndpointHandler this n d root h [])) =
     (snd (llRegisterEndpointHandler this n d root h []) \<noteq> [])"
  by (simp add: llRegisterEndpointHandler_def Let_def joinPaths_def)

lemma llRegister_length:
  "length (snd (llRegisterEndpointHandler this n d root h [])) \<le> Suc 0"
  by (simp add: llRegisterEndpointHandler_def Let_def)

lemma llRegister_handler:
  "reg \<in> set (snd (llRegisterEndpointHandler this n d root h [])) \<Longrightarrow>
   snd (snd (snd reg)) = h"
  by (auto simp: llRegisterEndpointHandler_def Let_def split: if_splits)

lemma llSetup_append:
  "llSetupRenderingFor this service n root regs =
     (fst (llSetupRenderingFor this service n root []),
      regs @ snd (llSetupRenderingFor this service n root []))"
  unfolding llSetupRenderingFor_def
  by (subst llRegister_append) (auto simp: Let_def split: sum.splits option.splits prod.splits)

lemma llSetup_length:
  "length (snd (llSetupRenderingFor this service n root [])) \<le> 1"
  by (auto simp: llSetupRenderingFor_def Let_def case_prod_beta llRegister_length
      split: sum.splits option.splits)

lemma llSetup_ok:
  assumes "m_getMethodForEndpoint service = Some gm" and "m_getEndpointDefFor service = Some gd"
  shows "\<exists>p. fst (llSetupRenderingFor this service n root []) = Inr p \<and>
             (def_u p \<longleftrightarrow> snd (llSetupRenderingFor this service n root []) \<noteq> [])"
proof -
  have *: "\<And>d h. def_u (fst (llRegisterEndpointHandler this n d root h [])) =
      (snd (llRegisterEndpointHandler this n d root h []) \<noteq> [])"
    by (rule llRegister_def_iff)
  show ?thesis
    using assms
    by (auto simp: llSetupRenderingFor_def llCreateEndpointHandlerFunc_def Let_def
        case_prod_beta *)
qed

lemma llSetup_handler:
  "reg \<in> set (snd (llSetupRenderingFor this service n root [])) \<Longrightarrow>
   \<exists>m. snd (snd (snd reg)) = HandlerFunc n m (h_getRenderMethodForEndpoint this n)"
  by (auto simp: llSetupRenderingFor_def llCreateEndpointHandlerFunc_def Let_def
      case_prod_beta split: sum.splits option.splits if_splits dest!: llRegister_handler)

lemma setupLoop_eq:
  assumes "m_getMethodForEndpoint service = Some gm" and "m_getEndpointDefFor service = Some gd"
  shows "setupLoop this service root names num regs =
     (Inr (num + length (filter (\<lambda>n. snd (llSetupRenderingFor this service n root []) \<noteq> []) names)),
      regs @ concat (map (\<lambda>n. snd (llSetupRenderingFor this service n root [])) names))"
proof (induction names arbitrary: num regs)
  case Nil
  show ?case by simp
next
  case (Cons n names)
  obtain p where p: "fst (llSetupRenderingFor this service n root []) = Inr p"
    and d: "def_u p \<longleftrightarrow> snd (llSetupRenderingFor this service n root []) \<noteq> []"
    using llSetup_ok [OF assms] by blast
  have step: "llSetupRenderingFor this service n root regs =
      (Inr p, regs @ snd (llSetupRenderingFor this service n root []))"
    using llSetup_append [of this service n root regs] p by simp
  show ?case
    using d by (simp add: step Cons.IH)
qed

lemma setupLoop_handlers:
  "setupLoop this service root names num regs = (r, regs') \<Longrightarrow>
   \<exists>new. regs' = regs @ new \<and>
     (\<forall>reg \<in> set new. \<exists>n m.
        snd (snd (snd reg)) = HandlerFunc n m (h_getRenderMethodForEndpoint this n))"
proof (induction names arbitrary: num regs)
  case Nil
  then show ?case by simp
next
  case (Cons n names)
  let ?new = "snd (llSetupRenderingFor this service n root [])"
  have step: "llSetupRenderingFor this service n root regs =
      (fst (llSetupRenderingFor this service n root []), regs @ ?new)"
    by (rule llSetup_append)
  have new: "\<forall>reg \<in> set ?new. \<exists>n m.
        snd (snd (snd reg)) = HandlerFunc n m (h_getRenderMethodForEndpoint this n)"
    using llSetup_handler by blast
  show ?case
  proof (cases "fst (llSetupRenderingFor this service n root [])")
    case (Inl e)
    with Cons.prems step have "regs' = regs @ ?new" by simp
    with new show ?thesis by blast
  next
    case (Inr p)
    with Cons.prems step
    have "setupLoop this service root names (if def_u p then num + 1 else num) (regs @ ?new) =
        (r, regs')"
      by simp
    from Cons.IH [OF this] obtain new' where
      "regs' = (regs @ ?new) @ new'" and
      "\<forall>reg \<in> set new'. \<exists>n m.
        snd (snd (snd reg)) = HandlerFunc n m (h_getRenderMethodForEndpoint this n)"
      by blast
    with new have "regs' = regs @ (?new @ new') \<and>
      (\<forall>reg \<in> set (?new @ new'). \<exists>n m.
        snd (snd (snd reg)) = HandlerFunc n m (h_getRenderMethodForEndpoint this n))"
      by auto
    then show ?thesis by blast
  qed
qed

lemma renderResponsesFor_handlers:
  "renderResponsesFor this service root endpoints regs = (r, regs') \<Longrightarrow>
   \<exists>new. regs' = regs @ new \<and>
     (\<forall>reg \<in> set new. \<exists>n m.
        snd (snd (snd reg)) = HandlerFunc n m (h_getRenderMethodForEndpoint this n))"
  unfolding renderResponsesFor_def Let_def
  by (auto split: if_splits sum.splits option.splits prod.splits dest!: setupLoop_handlers)

lemma toLowerCase_get: "toLowerCase ''get'' = ''get''"
  by code_simp

text \<open>
  C9, as amended. The verb is the definition's \<open>HTTPMethod\<close> lowercased when that field is a
  non-empty string, and \<open>get\<close> when the field is absent or the empty string. When the server
  returned by \<open>getHTTPServer\<close> has no method of that name the registration fails: the URL
  path returned is \<open>null\<close> and nothing is registered. Otherwise that server method is called
  with the joined path (root path and \<open>URLSubpath\<close>) and the handler, and the joined path is
  returned.
\<close>

theorem llRegisterEndpointHandler_verb:
  "(prop_of endpointDef ''HTTPMethod'' = Str s \<and> s \<noteq> [] \<longrightarrow>
      llRegisterEndpointHandler this endpointName endpointDef servicePathRoot h regs =
        (if hasMethod (h_getHTTPServer this) (Str (toLowerCase s))
         then (joinPaths [servicePathRoot, prop_of endpointDef ''URLSubpath''],
               regs @ [(h_getHTTPServer this, Str (toLowerCase s),
                        joinPaths [servicePathRoot, prop_of endpointDef ''URLSubpath''], h)])
         else (Null, regs))) \<and>
   (prop_of endpointDef ''HTTPMethod'' = Undefined \<or> prop_of endpointDef ''HTTPMethod'' = Str [] \<longrightarrow>
      llRegisterEndpointHandler this endpointName endpointDef servicePathRoot h regs =
        (if hasMethod (h_getHTTPServer this) (Str ''get'')
         then (joinPaths [servicePathRoot, prop_of endpointDef ''URLSubpath''],
               regs @ [(h_getHTTPServer this, Str ''get'',
                        joinPaths [servicePathRoot, prop_of endpointDef ''URLSubpath''], h)])
         else (Null, regs)))"
  by (auto simp: llRegisterEndpointHandler_def Let_def or_u_def toLowerCase_get)

theorem llRegisterEndpointHandler_verb_witness:
  "llRegisterEndpointHandler (host_of_renderer example_renderer) ''a''
      (Obj [(''HTTPMethod'', Str ''GET''), (''URLSubpath'', Str ''/users/:id'')]) (Str ''/api/'')
      (HandlerFunc ''a'' (Func (Ext 7)) (Func RenderJSON)) [] =
     (Str ''/api/users/:id'',
      [(example_server, Str ''get'', Str ''/api/users/:id'',
        HandlerFunc ''a'' (Func (Ext 7)) (Func RenderJSON))]) \<and>
   llRegisterEndpointHandler (host_of_renderer example_renderer) ''a''
      (Obj [(''HTTPMethod'', Str ''Post''), (''URLSubpath'', Str ''/users/:id'')]) (Str ''/api/'')
      (HandlerFunc ''a'' (Func (Ext 7)) (Func RenderJSON)) [] = (Null, []) \<and>
   llRegisterEndpointHandler (host_of_renderer example_renderer) ''a''
      (Obj [(''URLSubpath'', Str ''/users/:id'')]) (Str ''/api/'')
      (HandlerFunc ''a'' (Func (Ext 7)) (Func RenderJSON)) [] =
     (Str ''/api/users/:id'',
      [(example_server, Str ''get'', Str ''/api/users/:id'',
        HandlerFunc ''a'' (Func (Ext 7)) (Func RenderJSON))])"
proof -
  let ?host = "host_of_renderer example_renderer"
  let ?h = "HandlerFunc ''a'' (Func (Ext 7)) (Func RenderJSON)"
  let ?get = "Obj [(''HTTPMethod'', Str ''GET''), (''URLSubpath'', Str ''/users/:id'')]"
  let ?post = "Obj [(''HTTPMethod'', Str ''Post''), (''URLSubpath'', Str ''/users/:id'')]"
  let ?none = "Obj [(''URLSubpath'', Str ''/users/:id'')]"
  have g: "prop_of ?get ''HTTPMethod'' = Str ''GET'' \<and> ''GET'' \<noteq> []"
    by simp
  have p: "prop_of ?post ''HTTPMethod'' = Str ''Post'' \<and> ''Post'' \<noteq> []"
    by simp
  have n: "prop_of ?none ''HTTPMethod'' = Undefined \<or> prop_of ?none ''HTTPMethod'' = Str []"
    by simp
  have 1: "llRegisterEndpointHandler ?host ''a'' ?get (Str ''/api/'') ?h [] =
      (if hasMethod (h_getHTTPServer ?host) (Str (toLowerCase ''GET''))
       then (joinPaths [Str ''/api/'', prop_of ?get ''URLSubpath''],
             [] @ [(h_getHTTPServer ?host, Str (toLowerCase ''GET''),
                    joinPaths [Str ''/api/'', prop_of ?get ''URLSubpath''], ?h)])
       else (Null, []))"
    by (rule llRegisterEndpointHandler_verb [THEN conjunct1, THEN mp, OF g])
  have 2: "llRegisterEndpointHandler ?host ''a'' ?post (Str ''/api/'') ?h [] =
      (if hasMethod (h_getHTTPServer ?host) (Str (toLowerCase ''Post''))
       then (joinPaths [Str ''/api/'', prop_of ?post ''URLSubpath''],
             [] @ [(h_getHTTPServer ?host, Str (toLowerCase ''Post''),
                    joinPaths [Str ''/api/'', prop_of ?post ''URLSubpath''], ?h)])
       else (Null, []))"
    by (rule llRegisterEndpointHandler_verb [THEN conjunct1, THEN mp, OF p])
  have 3: "llRegisterEndpointHandler ?host ''a'' ?none (Str ''/api/'') ?h [] =
      (if hasMethod (h_getHTTPServer ?host) (Str ''get'')
       then (joinPaths [Str ''/api/'', prop_of ?none ''URLSubpath''],
             [] @ [(h_getHTTPServer ?host, Str ''get'',
                    joinPaths [Str ''/api/'', prop_of ?none ''URLSubpath''], ?h)])
       else (Null, []))"
    by (rule llRegisterEndpointHandler_verb [THEN conjunct2, THEN mp, OF n])
  have v1: "(if hasMethod (h_getHTTPServer ?host) (Str (toLowerCase ''GET''))
       then (joinPaths [Str ''/api/'', prop_of ?get ''URLSubpath''],
             [] @ [(h_getHTTPServer ?host, Str (toLowerCase ''GET''),
                    joinPaths [Str ''/api/'', prop_of ?get ''URLSubpath''], ?h)])
       else (Null, [])) =
     (Str ''/api/users/:id'', [(example_server, Str ''get'', Str ''/api/users/:id'', ?h)])"
    by code_simp
  have v2: "(if hasMethod (h_getHTTPServer ?host) (Str (toLowerCase ''Post''))
       then (joinPaths [Str ''/api/'', prop_of ?post ''URLSubpath''],
             [] @ [(h_getHTTPServer ?host, Str (toLowerCase ''Post''),
                    joinPaths [Str ''/api/'', prop_of ?post ''URLSubpath''], ?h)])
       else (Null, [])) = (Null, [])"
    by code_simp
  have v3: "(if hasMethod (h_getHTTPServer ?host) (Str ''get'')
       then (joinPaths [Str ''/api/'', prop_of ?none ''URLSubpath''],
             [] @ [(h_getHTTPServer ?host, Str ''get'',
                    joinPaths [Str ''/api/'', prop_of ?none ''URLSubpath''], ?h)])
       else (Null, [])) =
     (Str ''/api/users/:id'', [(example_server, Str ''get'', Str ''/api/users/:id'', ?h)])"
    by code_simp
  from trans [OF 1 v1] trans [OF 2 v2] trans [OF 3 v3] show ?thesis
    by (intro conjI)
qed

text \<open>
  C9 as stated has the verb be \<open>HTTPMethod\<close> lowercased whenever the field is a string. For
  the empty string \<open>HTTPMethod || "get"\<close> takes the default: the handler is registered
  with the server's \<open>get\<close>, where the claim has the verb \<open>""\<close>, which the server does not
  have, and the registration fail.
\<close>

theorem llRegisterEndpointHandler_empty_verb:
  "prop_of (Obj [(''HTTPMethod'', Str ''''), (''URLSubpath'', Str ''/a'')]) ''HTTPMethod'' =
     Str '''' \<and>
   toLowerCase '''' = '''' \<and>
   \<not> hasMethod example_server (Str '''') \<and>
   llRegisterEndpointHandler (host_of_renderer example_renderer) ''a''
      (Obj [(''HTTPMethod'', Str ''''), (''URLSubpath'', Str ''/a'')]) (Str ''/'')
      (HandlerFunc ''a'' (Func (Ext 7)) (Func RenderJSON)) [] =
    (Str ''/a'',
     [(example_server, Str ''get'', Str ''/a'',
       HandlerFunc ''a'' (Func (Ext 7)) (Func RenderJSON))])"
  by code_simp

subsection \<open>Partial success\<close>

lemma llSetup_no_method:
  "m_getMethodForEndpoint service = Some gm \<Longrightarrow> \<not> func_u (gm n) \<Longrightarrow>
   llSetupRenderingFor this service n root regs = (Inr Null, regs)"
  by (simp add: llSetupRenderingFor_def llCreateEndpointHandlerFunc_def)

lemma renderResponsesFor_empty_selection:
  assumes "interfaceAdheres service"
    and "endpoints = Some [] \<or> endpoints = None \<and> m_getEndpointNames service = Some (Some [])"
  shows "renderResponsesFor this service servicePathRoot endpoints regs = (Inr True, regs)"
  using assms by (auto simp: renderResponsesFor_def Let_def)

text \<open>
  What \<open>renderResponsesFor\<close> does on a service that passes the capability check and has
  \<open>getMethodForEndpoint\<close>, with \<open>names\<close> the resolved selection (the \<open>endpoints\<close> argument
  when it is an array, else what \<open>getEndpointNames\<close> returns): it returns true when \<open>names\<close>
  is empty, and otherwise true exactly when some endpoint of \<open>names\<close> was registered. The
  registrations afterwards are the ones before, followed, endpoint by endpoint in order, by
  what setting up that endpoint on its own registers: one registration, or none when it
  fails (as it does without a processing method). A failing endpoint neither stops the
  later ones nor removes the earlier registrations.
\<close>

theorem renderResponsesFor_partial_success:
  assumes "interfaceAdheres service" and "m_getMethodForEndpoint service = Some gm"
    and "endpoints = Some names \<or>
         endpoints = None \<and> m_getEndpointNames service = Some (Some names)"
  shows "renderResponsesFor this service servicePathRoot endpoints regs =
     (Inr (names = [] \<or>
           (\<exists>n \<in> set names.
              snd (llSetupRenderingFor this service n (or_u servicePathRoot (Str ''/'')) []) \<noteq> [])),
      regs @ concat (map (\<lambda>n.
         snd (llSetupRenderingFor this service n (or_u servicePathRoot (Str ''/'')) [])) names)) \<and>
     (\<forall>n. length (snd (llSetupRenderingFor this service n
                          (or_u servicePathRoot (Str ''/'')) [])) \<le> 1 \<and>
          (\<not> func_u (gm n) \<longrightarrow>
             snd (llSetupRenderingFor this service n (or_u servicePathRoot (Str ''/'')) []) = []))"
proof -
  let ?root = "or_u servicePathRoot (Str ''/'')"
  obtain gd where gd: "m_getEndpointDefFor service = Some gd"
    using assms(1) by (auto simp: interfaceAdheres_def)
  note gm = assms(2)
  have sel: "(case endpoints of
                    Some es \<Rightarrow> Inr (Some es)
                  | None \<Rightarrow>
                      (case m_getEndpointNames service of
                         None \<Rightarrow> Inl (TypeError ''service.getEndpointNames is not a function'')
                       | Some names \<Rightarrow> Inr names)) = Inr (Some names)"
    using assms(3) by auto
  have count: "(\<not> length (filter (\<lambda>n. snd (llSetupRenderingFor this service n ?root []) \<noteq> []) names) < 1)
      = (\<exists>n \<in> set names. snd (llSetupRenderingFor this service n ?root []) \<noteq> [])"
    by (auto simp: filter_empty_conv)
  have main: "renderResponsesFor this service servicePathRoot endpoints regs =
     (Inr (names = [] \<or>
           (\<exists>n \<in> set names. snd (llSetupRenderingFor this service n ?root []) \<noteq> [])),
      regs @ concat (map (\<lambda>n. snd (llSetupRenderingFor this service n ?root [])) names))"
    unfolding renderResponsesFor_def Let_def sel
    using assms(1) count
    by (simp add: setupLoop_eq [OF gm gd])
  have one: "\<And>n. length (snd (llSetupRenderingFor this service n ?root [])) \<le> 1"
    using llSetup_length [of this service _ ?root] by simp
  have none: "\<And>n. \<not> func_u (gm n) \<Longrightarrow> snd (llSetupRenderingFor this service n ?root []) = []"
    by (simp add: llSetup_no_method [OF gm])
  show ?thesis using main one none by blast
qed

theorem renderResponsesFor_partial_success_example:
  "renderResponsesFor (host_of_renderer example_renderer)
      (svc_of_service (Service_constructor mapOnlyA ''svc'' example_config))
      (Str ''/api/'') None [] =
     (Inr True,
      [(example_server, Str ''get'', Str ''/api/a'',
        HandlerFunc ''a'' (Func (Ext 3)) (Func RenderJSON))]) \<and>
   renderResponsesFor (host_of_renderer example_renderer)
      (svc_of_service (Service_constructor mapOnlyA ''svc'' example_config))
      (Str ''/api/'') (Some []) [] = (Inr True, [])"
proof -
  let ?host = "host_of_renderer example_renderer"
  let ?s = "Service_constructor mapOnlyA ''svc'' example_config"
  have h1: "interfaceAdheres (svc_of_service ?s)"
    by (simp add: interfaceAdheres_def svc_of_service_def)
  have h2: "m_getMethodForEndpoint (svc_of_service ?s) = Some (getMethodForEndpoint ?s)"
    by (simp add: svc_of_service_def)
  have h3: "None = Some [''a'', ''b''] \<or>
      None = None \<and> m_getEndpointNames (svc_of_service ?s) = Some (Some [''a'', ''b''])"
    by code_simp
  have h4: "Some [] = Some ([] :: string list) \<or>
      Some [] = None \<and> m_getEndpointNames (svc_of_service ?s) = Some (Some [])"
    by simp
  have a: "snd (llSetupRenderingFor ?host (svc_of_service ?s) ''a''
                  (or_u (Str ''/api/'') (Str ''/'')) []) =
      [(example_server, Str ''get'', Str ''/api/a'',
        HandlerFunc ''a'' (Func (Ext 3)) (Func RenderJSON))]"
    by code_simp
  have b: "snd (llSetupRenderingFor ?host (svc_of_service ?s) ''b''
                  (or_u (Str ''/api/'') (Str ''/'')) []) = []"
    by code_simp
  show ?thesis
    using renderResponsesFor_partial_success [OF h1 h2 h3, of ?host "Str ''/api/''" "[]"]
      renderResponsesFor_partial_success [OF h1 h2 h4, of ?host "Str ''/api/''" "[]"]
    by (simp add: a b)
qed

text \<open>
  C5: on a service that passes the capability check, \<open>renderResponsesFor\<close> returns true for
  an empty selection and otherwise true exactly when an endpoint was registered, a failing
  endpoint stopping nothing. At this input it does not. The service has the three methods
  of \<open>REQUIRED_SERVICE_IF\<close> and the endpoints \<open>a\<close> and \<open>b\<close>, but no
  \<open>getMethodForEndpoint\<close>: the capability check does not ask for that method, and the setup
  of each endpoint calls it unguarded. \<open>renderResponsesFor\<close> raises a TypeError at the first
  endpoint; it returns neither true nor false.
\<close>

theorem renderResponsesFor_missing_getMethodForEndpoint:
  "interfaceAdheres
     ((svc_of_service (Service_constructor mapBoth ''svc'' example_config))
        \<lparr>m_getMethodForEndpoint := None\<rparr>) \<and>
   m_getEndpointNames
     ((svc_of_service (Service_constructor mapBoth ''svc'' example_config))
        \<lparr>m_getMethodForEndpoint := None\<rparr>) = Some (Some [''a'', ''b'']) \<and>
   renderResponsesFor (host_of_renderer example_renderer)
     ((svc_of_service (Service_constructor mapBoth ''svc'' example_config))
        \<lparr>m_getMethodForEndpoint := None\<rparr>)
     (Str ''/api/'') None [] =
     (Inl (TypeError ''service.getMethodForEndpoint is not a function''), [])"
  by code_simp

section \<open>JSONRenderer: rendering\<close>

text \<open>
  \<open>_renderJSON\<close> as a function of \<open>hdrs\<close>, the value it finds in \<open>this._responseHeaders\<close>.
  When \<open>err\<close> is defined it is passed unchanged to \<open>next\<close> and nothing else happens: no
  \<open>status\<close>, \<open>set\<close> or \<open>json\<close>. When \<open>err\<close> is not defined, \<open>status\<close> is applied to the
  response channel first if it is a number, then \<open>hdrs\<close> if it is an object, and the call
  ends with \<open>json\<close> on the data, wrapped as \<open>{data: value}\<close> unless it is an object. For
  \<open>data = 5\<close> and \<open>status = 201\<close> it calls \<open>status(201)\<close> and then (after \<open>set\<close>, if
  \<open>hdrs\<close> is an object) \<open>json({data: 5})\<close>.
\<close>

theorem renderJSON_spec:
  "(def_u err \<longrightarrow> renderJSON hdrs req res next data err status = [Call next [err]]) \<and>
   (\<not> def_u err \<longrightarrow>
      (let res1 = (if number_u status then Ret res ''status'' [status] else res);
           res2 = (if obj_u hdrs then Ret res1 ''set'' [hdrs] else res1)
       in renderJSON hdrs req res next data err status =
            (if number_u status then [Method res ''status'' [status]] else []) @
            (if obj_u hdrs then [Method res1 ''set'' [hdrs]] else []) @
            [Method res2 ''json'' [if obj_u data then data else Obj [(''data'', data)]]])) \<and>
   renderJSON hdrs req res next (Num 5) Undefined (Num 201) =
     Method res ''status'' [Num 201] #
     (if obj_u hdrs
      then [Method (Ret res ''status'' [Num 201]) ''set'' [hdrs],
            Method (Ret (Ret res ''status'' [Num 201]) ''set'' [hdrs]) ''json''
              [Obj [(''data'', Num 5)]]]
      else [Method (Ret res ''status'' [Num 201]) ''json'' [Obj [(''data'', Num 5)]]])"
  by (simp add: renderJSON_def Let_def)

theorem renderJSON_spec_example:
  "renderJSON (Obj [(''X-Powered-By'', Str ''chunks'')]) (Str ''req'') (Str ''res'')
       (Func (Ext 9)) (Num 5) (Str ''boom'') (Num 201) =
     [Call (Func (Ext 9)) [Str ''boom'']] \<and>
   renderJSON (Obj [(''X-Powered-By'', Str ''chunks'')]) (Str ''req'') (Str ''res'')
       (Func (Ext 9)) (Arr [Num 7]) Undefined (Str ''201'') =
     [Method (Str ''res'') ''set'' [Obj [(''X-Powered-By'', Str ''chunks'')]],
      Method (Ret (Str ''res'') ''set'' [Obj [(''X-Powered-By'', Str ''chunks'')]]) ''json''
        [Obj [(''data'', Arr [Num 7])]]] \<and>
   renderJSON Undefined (Str ''req'') (Str ''res'') (Func (Ext 9)) (Num 5) Undefined (Num 201) =
     [Method (Str ''res'') ''status'' [Num 201],
      Method (Ret (Str ''res'') ''status'' [Num 201]) ''json'' [Obj [(''data'', Num 5)]]]"
  using renderJSON_spec [of "Str ''boom''" "Obj [(''X-Powered-By'', Str ''chunks'')]"
      "Str ''req''" "Str ''res''" "Func (Ext 9)" "Num 5" "Num 201"]
    renderJSON_spec [of Undefined "Obj [(''X-Powered-By'', Str ''chunks'')]"
      "Str ''req''" "Str ''res''" "Func (Ext 9)" "Arr [Num 7]" "Str ''201''"]
    renderJSON_spec [of Undefined Undefined "Str ''req''" "Str ''res''" "Func (Ext 9)"
      "Num 5" "Num 201"]
  by (simp add: Let_def)

text \<open>
  The mixin sees a renderer through its name, its validity, its server and its render
  method: the configured headers are no part of that.
\<close>

lemma host_of_renderer_responseHeaders:
  "host_of_renderer (this\<lparr>r_responseHeaders := hdrs\<rparr>) = host_of_renderer this"
  by (simp add: host_of_renderer_def)

text \<open>
  C6: for every call of \<open>_renderJSON\<close> with \<open>err\<close> not defined, the configured default
  response headers are applied when present. At this input they are not. The renderer is
  constructed with \<open>responseHeaders = {"X-Powered-By": "chunks"}\<close> and stores them;
  \<open>renderResponsesFor\<close> registers the composite handler of endpoint \<open>a\<close> with
  \<open>_renderJSON\<close> as its render method. \<open>getRenderMethodForEndpoint\<close> returns
  \<open>this._renderJSON\<close> as a bare function value and the completion callback applies it as
  such, so inside the call \<open>this\<close> is not the renderer but the global object, which has no
  \<open>_responseHeaders\<close>. When the processing method reports \<open>data = 5\<close> the handler calls
  \<open>json({data: 5})\<close> and never \<open>set\<close>. Called as a method of the renderer, \<open>_renderJSON\<close>
  would apply the headers first.
\<close>

theorem renderJSON_unbound_drops_headers:
  "r_responseHeaders headed_renderer = Obj [(''X-Powered-By'', Str ''chunks'')] \<and>
   renderResponsesFor (host_of_renderer headed_renderer)
     (svc_of_service (Service_constructor mapBoth ''svc'' example_config))
     (Str ''/api/'') (Some [''a'']) [] =
     (Inr True,
      [(example_server, Str ''get'', Str ''/api/a'',
        HandlerFunc ''a'' (Func (Ext 3)) (Func RenderJSON))]) \<and>
   handlerFunc (svc_of_service (Service_constructor mapBoth ''svc'' example_config))
       (host_of_renderer headed_renderer) Undefined ''a'' (Func (Ext 3)) (Func RenderJSON)
       [(Num 5, Undefined)] (Str ''req'') (Str ''res'') (Func (Ext 9)) =
     Inr [Call (Func (Ext 3)) [Str ''req'', Func CbReady],
          Call (Func RenderJSON) [Str ''req'', Str ''res'', Func (Ext 9), Num 5, Undefined],
          Method (Str ''res'') ''json'' [Obj [(''data'', Num 5)]]] \<and>
   renderJSON (r_responseHeaders headed_renderer) (Str ''req'') (Str ''res'') (Func (Ext 9))
       (Num 5) Undefined Undefined =
     [Method (Str ''res'') ''set'' [Obj [(''X-Powered-By'', Str ''chunks'')]],
      Method (Ret (Str ''res'') ''set'' [Obj [(''X-Powered-By'', Str ''chunks'')]]) ''json''
        [Obj [(''data'', Num 5)]]]"
  by code_simp

section \<open>Rendering through the composite handler\<close>

lemma renderJSON_no_status:
  "\<not> number_u status \<Longrightarrow> ev \<in> set (renderJSON hdrs req res next data err status) \<Longrightarrow>
   \<not> calls_status ev"
  by (auto simp: renderJSON_def Let_def split: if_splits)

lemma body_of_no_status:
  "ev \<in> set (body_of ghdrs (Func RenderJSON) [req, res, next, data, err]) \<Longrightarrow>
   \<not> calls_status ev"
proof -
  assume a: "ev \<in> set (body_of ghdrs (Func RenderJSON) [req, res, next, data, err])"
  have "arg [req, res, next, data, err] 5 = Undefined"
    by (simp add: arg_def)
  then have "\<not> number_u (arg [req, res, next, data, err] 5)"
    by simp
  from renderJSON_no_status [OF this] a show ?thesis
    by simp
qed

lemma cbReady_no_status:
  assumes "ev \<in> set (cbReady self ghdrs n (Func RenderJSON) req res next data err)"
  shows "\<not> calls_status ev"
proof (cases "h_isValid self = Some False")
  case True
  with assms show ?thesis by (simp add: cbReady_def)
next
  case False
  then have "cbReady self ghdrs n (Func RenderJSON) req res next data err =
      Call (Func RenderJSON) [req, res, next, data, err] #
      body_of ghdrs (Func RenderJSON) [req, res, next, data, err]"
    by (cases "h_isValid self") (auto simp: cbReady_def call_fn_def)
  with assms have "ev = Call (Func RenderJSON) [req, res, next, data, err] \<or>
      ev \<in> set (body_of ghdrs (Func RenderJSON) [req, res, next, data, err])"
    by auto
  then show ?thesis
    using body_of_no_status [of ev ghdrs req res "next" data err] by auto
qed

lemma handlerFunc_no_status:
  assumes "handlerFunc service' self ghdrs endpointName endpointMethod (Func RenderJSON) firings
      req res next = Inr evs" and "ev \<in> set evs"
  shows "\<not> calls_status ev"
proof (cases "m_isValid service' = Some False")
  case True
  with assms show ?thesis
    by (auto simp: handlerFunc_def split: option.splits)
next
  case False
  then have "handlerFunc service' self ghdrs endpointName endpointMethod (Func RenderJSON)
      firings req res next =
    Inr (Call endpointMethod [req, Func CbReady] #
         concat (map (\<lambda>(data, err).
           cbReady self ghdrs endpointName (Func RenderJSON) req res next data err) firings))"
    by (cases "m_isValid service'") (auto simp: handlerFunc_def)
  with assms have "ev = Call endpointMethod [req, Func CbReady] \<or>
    (\<exists>data err. ev \<in> set (cbReady self ghdrs endpointName (Func RenderJSON) req res next data err))"
    by auto
  then show ?thesis
    using cbReady_no_status by auto
qed

text \<open>
  C10. Every handler that \<open>renderResponsesFor\<close> registers is a composite handler whose
  render method is what \<open>getRenderMethodForEndpoint\<close> gave for its endpoint. When the
  completion callback fires and the renderer is valid, the render method is called with
  exactly the five arguments \<open>(req, res, next, data, err)\<close>. With \<open>_renderJSON\<close> as the
  render method, nothing in the trace of the handler is a call of \<open>status\<close>, whatever the
  service, the renderer, the request and the firings are.
\<close>

theorem composite_handler_five_arguments:
  "(renderResponsesFor this service servicePathRoot endpoints regs = (result, regs') \<longrightarrow>
      (\<exists>new. regs' = regs @ new \<and>
         (\<forall>reg \<in> set new. \<exists>n m.
            snd (snd (snd reg)) = HandlerFunc n m (h_getRenderMethodForEndpoint this n)))) \<and>
   (h_isValid self \<noteq> Some False \<longrightarrow>
      cbReady self ghdrs endpointName endpointRenderMethod req res next data err =
        Call endpointRenderMethod [req, res, next, data, err] #
        body_of ghdrs endpointRenderMethod [req, res, next, data, err]) \<and>
   (handlerFunc service' self ghdrs endpointName endpointMethod (Func RenderJSON) firings
        req res next = Inr evs \<longrightarrow>
      (\<forall>ev \<in> set evs. \<not> calls_status ev))"
proof (intro conjI impI)
  assume "renderResponsesFor this service servicePathRoot endpoints regs = (result, regs')"
  then show "\<exists>new. regs' = regs @ new \<and>
         (\<forall>reg \<in> set new. \<exists>n m.
            snd (snd (snd reg)) = HandlerFunc n m (h_getRenderMethodForEndpoint this n))"
    by (rule renderResponsesFor_handlers)
next
  assume "h_isValid self \<noteq> Some False"
  then show "cbReady self ghdrs endpointName endpointRenderMethod req res next data err =
        Call endpointRenderMethod [req, res, next, data, err] #
        body_of ghdrs endpointRenderMethod [req, res, next, data, err]"
    by (cases "h_isValid self") (auto simp: cbReady_def call_fn_def)
next
  assume run: "handlerFunc service' self ghdrs endpointName endpointMethod (Func RenderJSON)
      firings req res next = Inr evs"
  show "\<forall>ev \<in> set evs. \<not> calls_status ev"
  proof
    fix ev
    assume "ev \<in> set evs"
    with run show "\<not> calls_status ev"
      by (rule handlerFunc_no_status)
  qed
qed

theorem composite_handler_five_arguments_witness:
  "renderResponsesFor (host_of_renderer example_renderer)
      (svc_of_service (Service_constructor mapOnlyA ''svc'' example_config))
      (Str ''/api/'') None [] =
     (Inr True,
      [(example_server, Str ''get'', Str ''/api/a'',
        HandlerFunc ''a'' (Func (Ext 3)) (Func RenderJSON))]) \<and>
   h_getRenderMethodForEndpoint (host_of_renderer example_renderer) ''a'' = Func RenderJSON \<and>
   cbReady (host_of_renderer example_renderer) Undefined ''a'' (Func (Ext 8))
       (Str ''req'') (Str ''res'') (Func (Ext 9)) (Num 5) Undefined =
     [Call (Func (Ext 8)) [Str ''req'', Str ''res'', Func (Ext 9), Num 5, Undefined]] \<and>
   handlerFunc (svc_of_service (Service_constructor mapBoth ''svc'' example_config))
       (host_of_renderer example_renderer) Undefined ''a'' (Func (Ext 7)) (Func RenderJSON)
       [(Num 5, Undefined)] (Str ''req'') (Str ''res'') (Func (Ext 9)) =
     Inr [Call (Func (Ext 7)) [Str ''req'', Func CbReady],
          Call (Func RenderJSON) [Str ''req'', Str ''res'', Func (Ext 9), Num 5, Undefined],
          Method (Str ''res'') ''json'' [Obj [(''data'', Num 5)]]] \<and>
   \<not> calls_status (Method (Str ''res'') ''json'' [Obj [(''data'', Num 5)]])"
proof -
  let ?host = "host_of_renderer example_renderer"
  let ?reg = "(example_server, Str ''get'', Str ''/api/a'',
        HandlerFunc ''a'' (Func (Ext 3)) (Func RenderJSON))"
  let ?json = "Method (Str ''res'') ''json'' [Obj [(''data'', Num 5)]]"
  have registered: "renderResponsesFor ?host
      (svc_of_service (Service_constructor mapOnlyA ''svc'' example_config))
      (Str ''/api/'') None [] = (Inr True, [?reg])"
    by code_simp
  from composite_handler_five_arguments [THEN conjunct1, THEN mp, OF registered]
  obtain added where added: "[?reg] = [] @ added" and
    each: "\<forall>reg \<in> set added. \<exists>n m.
      snd (snd (snd reg)) = HandlerFunc n m (h_getRenderMethodForEndpoint ?host n)"
    by (elim exE conjE)
  from added have "added = [?reg]" by simp
  then have "?reg \<in> set added" by simp
  with each have "\<exists>n m. snd (snd (snd ?reg)) =
      HandlerFunc n m (h_getRenderMethodForEndpoint ?host n)"
    by (rule bspec)
  then have render: "h_getRenderMethodForEndpoint ?host ''a'' = Func RenderJSON"
    by auto
  have valid: "h_isValid ?host \<noteq> Some False"
    by code_simp
  have ext: "body_of Undefined (Func (Ext 8))
      [Str ''req'', Str ''res'', Func (Ext 9), Num 5, Undefined] = []"
    by simp
  have cb: "cbReady ?host Undefined ''a'' (Func (Ext 8))
       (Str ''req'') (Str ''res'') (Func (Ext 9)) (Num 5) Undefined =
     [Call (Func (Ext 8)) [Str ''req'', Str ''res'', Func (Ext 9), Num 5, Undefined]]"
    using composite_handler_five_arguments [THEN conjunct2, THEN conjunct1, THEN mp, OF valid,
        of Undefined "''a''" "Func (Ext 8)" "Str ''req''" "Str ''res''" "Func (Ext 9)" "Num 5"
        Undefined]
    by (simp only: ext)
  have run: "handlerFunc (svc_of_service (Service_constructor mapBoth ''svc'' example_config))
       ?host Undefined ''a'' (Func (Ext 7)) (Func RenderJSON)
       [(Num 5, Undefined)] (Str ''req'') (Str ''res'') (Func (Ext 9)) =
     Inr [Call (Func (Ext 7)) [Str ''req'', Func CbReady],
          Call (Func RenderJSON) [Str ''req'', Str ''res'', Func (Ext 9), Num 5, Undefined],
          ?json]"
    by code_simp
  from composite_handler_five_arguments [THEN conjunct2, THEN conjunct2, THEN mp, OF run]
  have quiet: "\<not> calls_status ?json"
    by simp
  show ?thesis using registered render cb run quiet by (intro conjI)
qed

section \<open>Errors passed to the next-handler\<close>

lemma next_errors_append:
  "next_errors nx (a @ b) = next_errors nx a @ next_errors nx b"
  by (induction nx a rule: next_errors.induct) auto

lemma next_errors_concat:
  "e \<in> set (next_errors nx (concat xs)) \<Longrightarrow> \<exists>x \<in> set xs. e \<in> set (next_errors nx x)"
  by (induction xs) (auto simp: next_errors_append)

lemma next_errors_renderJSON:
  "e \<in> set (next_errors nx (renderJSON hdrs req res nx data err status)) \<Longrightarrow> e = err"
  by (auto simp: renderJSON_def Let_def split: if_splits)

lemma next_errors_body_of:
  "e \<in> set (next_errors nx (body_of ghdrs r [req, res, nx, data, err])) \<Longrightarrow>
   r = Func RenderJSON \<and> e = err"
proof (cases "r = Func RenderJSON")
  case True
  assume "e \<in> set (next_errors nx (body_of ghdrs r [req, res, nx, data, err]))"
  with True have "e \<in> set (next_errors nx (renderJSON ghdrs req res nx data err Undefined))"
    by (simp add: arg_def)
  with True show ?thesis
    by (auto dest: next_errors_renderJSON)
next
  case False
  then have "body_of ghdrs r [req, res, nx, data, err] = []"
    by (cases "(ghdrs, r, [req, res, nx, data, err])" rule: body_of.cases) auto
  moreover assume "e \<in> set (next_errors nx (body_of ghdrs r [req, res, nx, data, err]))"
  ultimately show ?thesis by simp
qed

lemma next_errors_body_of3:
  "next_errors nx (body_of ghdrs h [req, res, nx]) = []"
proof (cases "h = Func RenderJSON")
  case True
  then show ?thesis
    by (simp add: arg_def renderJSON_def Let_def)
next
  case False
  then have "body_of ghdrs h [req, res, nx] = []"
    by (cases "(ghdrs, h, [req, res, nx])" rule: body_of.cases) auto
  then show ?thesis by simp
qed

lemma next_errors_cbReady:
  assumes "e \<in> set (next_errors nx (cbReady self ghdrs n r req res nx data err))"
  shows "prop_of e ''code'' = Str ''ERR_RENDERER_INVALID'' \<and> h_isValid self = Some False \<or>
         r = Func RenderJSON \<and> e = err"
proof (cases "h_isValid self = Some False")
  case True
  with assms show ?thesis by (simp add: cbReady_def)
next
  case False
  then have "cbReady self ghdrs n r req res nx data err =
      Call r [req, res, nx, data, err] # body_of ghdrs r [req, res, nx, data, err]"
    by (cases "h_isValid self") (auto simp: cbReady_def call_fn_def)
  with assms have "e \<in> set (next_errors nx (body_of ghdrs r [req, res, nx, data, err]))"
    by simp
  then show ?thesis
    by (auto dest: next_errors_body_of)
qed

text \<open>
  C3, as amended. An error object that the composite handler passes to \<open>next\<close> has the
  code \<open>ERR_SERVICE_INVALID\<close> (the service is invalid) or \<open>ERR_RENDERER_INVALID\<close> (the
  renderer is invalid), or it is the \<open>err\<close> of a firing of the completion callback, which
  \<open>_renderJSON\<close> forwards unchanged, whatever its code. An error object that the validity
  wrapper of a ServerAppChunk passes to \<open>next\<close> has the code
  \<open>ERR_SERVER_APP_CHUNK_INVALID\<close>, and the chunk is invalid.
\<close>

theorem next_error_codes:
  "(handlerFunc service self ghdrs endpointName endpointMethod endpointRenderMethod firings
        req res next = Inr evs \<and> e \<in> set (next_errors next evs) \<longrightarrow>
      prop_of e ''code'' = Str ''ERR_SERVICE_INVALID'' \<and> m_isValid service = Some False \<or>
      prop_of e ''code'' = Str ''ERR_RENDERER_INVALID'' \<and> h_isValid self = Some False \<or>
      endpointRenderMethod = Func RenderJSON \<and> e \<in> snd ` set firings) \<and>
   (e \<in> set (next_errors next
               (validatedHandlerFunc chunk ghdrs endpointName rawHandler req res next)) \<longrightarrow>
      prop_of e ''code'' = Str ''ERR_SERVER_APP_CHUNK_INVALID'' \<and> \<not> isValid chunk)"
proof (rule conjI [OF impI impI])
  assume a: "handlerFunc service self ghdrs endpointName endpointMethod endpointRenderMethod
      firings req res next = Inr evs \<and> e \<in> set (next_errors next evs)"
  show "prop_of e ''code'' = Str ''ERR_SERVICE_INVALID'' \<and> m_isValid service = Some False \<or>
      prop_of e ''code'' = Str ''ERR_RENDERER_INVALID'' \<and> h_isValid self = Some False \<or>
      endpointRenderMethod = Func RenderJSON \<and> e \<in> snd ` set firings"
  proof (cases "m_isValid service = Some False")
    case True
    with a show ?thesis
      by (auto simp: handlerFunc_def split: option.splits)
  next
    case False
    then have "handlerFunc service self ghdrs endpointName endpointMethod endpointRenderMethod
        firings req res next =
      Inr (Call endpointMethod [req, Func CbReady] #
           concat (map (\<lambda>(data, err).
             cbReady self ghdrs endpointName endpointRenderMethod req res next data err)
             firings))"
      by (cases "m_isValid service") (auto simp: handlerFunc_def)
    with a have "e \<in> set (next_errors next (concat (map (\<lambda>(data, err).
             cbReady self ghdrs endpointName endpointRenderMethod req res next data err)
             firings)))"
      by auto
    from next_errors_concat [OF this] obtain data err where
      f: "(data, err) \<in> set firings" and
      c: "e \<in> set (next_errors next
            (cbReady self ghdrs endpointName endpointRenderMethod req res next data err))"
      by auto
    from next_errors_cbReady [OF c] f show ?thesis
      by force
  qed
next
  assume "e \<in> set (next_errors next
               (validatedHandlerFunc chunk ghdrs endpointName rawHandler req res next))"
  then show "prop_of e ''code'' = Str ''ERR_SERVER_APP_CHUNK_INVALID'' \<and> \<not> isValid chunk"
    by (auto simp: validatedHandlerFunc_def call_fn_def next_errors_append next_errors_body_of3
        split: if_splits)
qed

theorem next_error_codes_witness:
  "handlerFunc (svc_of_service (Service_constructor mapOnlyA ''svc'' example_config))
       (host_of_renderer example_renderer) Undefined ''a'' (Func (Ext 7)) (Func (Ext 8))
       [] (Str ''req'') (Str ''res'') (Func (Ext 9)) =
     Inr [Call (Func (Ext 9)) [Obj [
            (''message'', Str ''Service svc invalid, unable to handle request to endpoint a''),
            (''code'', Str ''ERR_SERVICE_INVALID'')]]] \<and>
   prop_of (Obj [
       (''message'', Str ''Service svc invalid, unable to handle request to endpoint a''),
       (''code'', Str ''ERR_SERVICE_INVALID'')]) ''code'' = Str ''ERR_SERVICE_INVALID'' \<and>
   prop_of (Obj [
       (''message'', Str ''Endpoint a : Server app chunk a is not valid, unable to handle request''),
       (''code'', Str ''ERR_SERVER_APP_CHUNK_INVALID'')]) ''code'' =
     Str ''ERR_SERVER_APP_CHUNK_INVALID''"
proof -
  let ?svc = "svc_of_service (Service_constructor mapOnlyA ''svc'' example_config)"
  let ?host = "host_of_renderer example_renderer"
  let ?e = "Obj [
       (''message'', Str ''Service svc invalid, unable to handle request to endpoint a''),
       (''code'', Str ''ERR_SERVICE_INVALID'')]"
  let ?chunk = "fst (ServerAppChunk_constructor mapOnlyA mapEndpointsToRenderMethods ''chunk''
                       (Obj []) [])"
  let ?c = "Obj [
       (''message'', Str ''Endpoint a : Server app chunk a is not valid, unable to handle request''),
       (''code'', Str ''ERR_SERVER_APP_CHUNK_INVALID'')]"
  have run: "handlerFunc ?svc ?host Undefined ''a'' (Func (Ext 7)) (Func (Ext 8)) []
      (Str ''req'') (Str ''res'') (Func (Ext 9)) = Inr [Call (Func (Ext 9)) [?e]]"
    by code_simp
  have mem: "?e \<in> set (next_errors (Func (Ext 9)) [Call (Func (Ext 9)) [?e]])"
    by simp
  have no: "h_isValid ?host \<noteq> Some False" "Func (Ext 8) \<noteq> Func RenderJSON"
    by code_simp+
  have wrapped: "?c \<in> set (next_errors (Func (Ext 9))
      (validatedHandlerFunc ?chunk Undefined ''a'' (Func (Ext 7)) (Str ''req'') (Str ''res'')
         (Func (Ext 9))))"
    by code_simp
  have 1: "prop_of ?e ''code'' = Str ''ERR_SERVICE_INVALID''"
    using next_error_codes [THEN conjunct1, THEN mp, OF conjI [OF run mem]] no
    by blast
  have 2: "prop_of ?c ''code'' = Str ''ERR_SERVER_APP_CHUNK_INVALID''"
    using next_error_codes [THEN conjunct2, THEN mp, OF wrapped]
    by blast
  show ?thesis using run 1 2 by (intro conjI)
qed

text \<open>
  C3 as stated has every error object that reaches \<open>next\<close> carry one of the three codes.
  A processing method that reports \<open>{code: "E_DB"}\<close> has it forwarded to \<open>next\<close> by
  \<open>_renderJSON\<close> as it is: its code is none of the three, with or without the \<open>ERR_\<close>
  prefix that the sources put before the names of the spec.
\<close>

theorem forwarded_error_code_counterexample:
  "handlerFunc (svc_of_service (Service_constructor mapBoth ''svc'' example_config))
       (host_of_renderer example_renderer) Undefined ''a'' (Func (Ext 7)) (Func RenderJSON)
       [(Undefined, Obj [(''code'', Str ''E_DB'')])] (Str ''req'') (Str ''res'') (Func (Ext 9)) =
     Inr [Call (Func (Ext 7)) [Str ''req'', Func CbReady],
          Call (Func RenderJSON)
            [Str ''req'', Str ''res'', Func (Ext 9), Undefined, Obj [(''code'', Str ''E_DB'')]],
          Call (Func (Ext 9)) [Obj [(''code'', Str ''E_DB'')]]] \<and>
   next_errors (Func (Ext 9))
     [Call (Func (Ext 7)) [Str ''req'', Func CbReady],
      Call (Func RenderJSON)
        [Str ''req'', Str ''res'', Func (Ext 9), Undefined, Obj [(''code'', Str ''E_DB'')]],
      Call (Func (Ext 9)) [Obj [(''code'', Str ''E_DB'')]]] =
     [Obj [(''code'', Str ''E_DB'')]] \<and>
   prop_of (Obj [(''code'', Str ''E_DB'')]) ''code'' \<notin> set error_kinds \<union> set error_codes"
  by code_simp

end
